theory Spec2Isabelle
  imports Complex_Main
begin

section \<open>The numbers of the engine\<close>

text \<open>
  Every quantity of the engine is a JavaScript \<open>number\<close>. The model keeps the part of
  double arithmetic that decides control flow and that a division by zero reaches: a
  number is a finite value, one of the two infinities, or NaN. Finite values are
  computed exactly (rounding and overflow of doubles are left out), and the zero of
  the model is the positive zero (the sign of zero is left out).

  Nothing in the engine throws on a zero divisor: \<open>x / 0\<close> is an infinity, or NaN when
  \<open>x\<close> is zero too, and NaN makes every comparison false.
\<close>

datatype number = Num real | PosInf | NegInf | NaN

instantiation number :: "{plus, minus, times, inverse, ord}"
begin

fun plus_number :: "number \<Rightarrow> number \<Rightarrow> number" where
  "plus_number (Num x) (Num y) = Num (x + y)"
| "plus_number NaN _ = NaN"
| "plus_number _ NaN = NaN"
| "plus_number PosInf NegInf = NaN"
| "plus_number NegInf PosInf = NaN"
| "plus_number PosInf _ = PosInf"
| "plus_number _ PosInf = PosInf"
| "plus_number NegInf _ = NegInf"
| "plus_number _ NegInf = NegInf"

fun minus_number :: "number \<Rightarrow> number \<Rightarrow> number" where
  "minus_number (Num x) (Num y) = Num (x - y)"
| "minus_number NaN _ = NaN"
| "minus_number _ NaN = NaN"
| "minus_number PosInf PosInf = NaN"
| "minus_number NegInf NegInf = NaN"
| "minus_number PosInf _ = PosInf"
| "minus_number _ NegInf = PosInf"
| "minus_number NegInf _ = NegInf"
| "minus_number _ PosInf = NegInf"

fun times_number :: "number \<Rightarrow> number \<Rightarrow> number" where
  "times_number (Num x) (Num y) = Num (x * y)"
| "times_number NaN _ = NaN"
| "times_number _ NaN = NaN"
| "times_number PosInf PosInf = PosInf"
| "times_number PosInf NegInf = NegInf"
| "times_number NegInf PosInf = NegInf"
| "times_number NegInf NegInf = PosInf"
| "times_number PosInf (Num y) = (if y = 0 then NaN else if 0 < y then PosInf else NegInf)"
| "times_number NegInf (Num y) = (if y = 0 then NaN else if 0 < y then NegInf else PosInf)"
| "times_number (Num x) PosInf = (if x = 0 then NaN else if 0 < x then PosInf else NegInf)"
| "times_number (Num x) NegInf = (if x = 0 then NaN else if 0 < x then NegInf else PosInf)"

fun divide_number :: "number \<Rightarrow> number \<Rightarrow> number" where
  "divide_number (Num x) (Num y) =
     (if y = 0 then (if x = 0 then NaN else if 0 < x then PosInf else NegInf)
      else Num (x / y))"
| "divide_number NaN _ = NaN"
| "divide_number _ NaN = NaN"
| "divide_number (Num x) PosInf = Num 0"
| "divide_number (Num x) NegInf = Num 0"
| "divide_number PosInf (Num y) = (if 0 \<le> y then PosInf else NegInf)"
| "divide_number NegInf (Num y) = (if 0 \<le> y then NegInf else PosInf)"
| "divide_number PosInf PosInf = NaN"
| "divide_number PosInf NegInf = NaN"
| "divide_number NegInf PosInf = NaN"
| "divide_number NegInf NegInf = NaN"

fun inverse_number :: "number \<Rightarrow> number" where
  "inverse_number (Num y) = (if y = 0 then PosInf else Num (1 / y))"
| "inverse_number PosInf = Num 0"
| "inverse_number NegInf = Num 0"
| "inverse_number NaN = NaN"

fun less_number :: "number \<Rightarrow> number \<Rightarrow> bool" where
  "less_number (Num x) (Num y) = (x < y)"
| "less_number NaN _ = False"
| "less_number _ NaN = False"
| "less_number _ NegInf = False"
| "less_number NegInf _ = True"
| "less_number PosInf _ = False"
| "less_number _ PosInf = True"

fun less_eq_number :: "number \<Rightarrow> number \<Rightarrow> bool" where
  "less_eq_number (Num x) (Num y) = (x \<le> y)"
| "less_eq_number NaN _ = False"
| "less_eq_number _ NaN = False"
| "less_eq_number NegInf _ = True"
| "less_eq_number _ PosInf = True"
| "less_eq_number PosInf _ = False"
| "less_eq_number _ NegInf = False"

instance ..

end

text \<open>
  The functions of \<open>Math\<close> that the engine calls, and the global \<open>isNaN\<close>. On finite
  arguments \<open>exp\<close>, \<open>tan\<close> and \<open>atan\<close> are the functions of the reals and \<open>Math.PI\<close> is
  \<open>pi\<close>. At a pole of the tangent, where the double computation returns a large finite
  value, the tangent of the reals is 0 in HOL; the only value of the tangent that a
  statement below relies on is \<open>tan (pi / 4) = 1\<close>.
\<close>

definition Math_PI :: number where
  "Math_PI = Num pi"

fun Math_abs :: "number \<Rightarrow> number" where
  "Math_abs (Num x) = Num \<bar>x\<bar>"
| "Math_abs PosInf = PosInf"
| "Math_abs NegInf = PosInf"
| "Math_abs NaN = NaN"

definition Math_max :: "number \<Rightarrow> number \<Rightarrow> number" where
  "Math_max a b = (if a = NaN \<or> b = NaN then NaN else if a \<le> b then b else a)"

definition Math_min :: "number \<Rightarrow> number \<Rightarrow> number" where
  "Math_min a b = (if a = NaN \<or> b = NaN then NaN else if a \<le> b then a else b)"

fun Math_exp :: "number \<Rightarrow> number" where
  "Math_exp (Num x) = Num (exp x)"
| "Math_exp PosInf = PosInf"
| "Math_exp NegInf = Num 0"
| "Math_exp NaN = NaN"

fun Math_tan :: "number \<Rightarrow> number" where
  "Math_tan (Num x) = Num (tan x)"
| "Math_tan _ = NaN"

fun Math_atan :: "number \<Rightarrow> number" where
  "Math_atan (Num x) = Num (arctan x)"
| "Math_atan PosInf = Num (pi / 2)"
| "Math_atan NegInf = Num (- (pi / 2))"
| "Math_atan NaN = NaN"

text \<open>
  \<open>Math.pow\<close> is called with the literal exponent 2 only; the model takes the exponent
  as a natural number.
\<close>

definition Math_pow :: "number \<Rightarrow> nat \<Rightarrow> number" where
  "Math_pow a n =
     (if n = 0 then Num 1
      else case a of
             Num x \<Rightarrow> Num (x ^ n)
           | PosInf \<Rightarrow> PosInf
           | NegInf \<Rightarrow> (if even n then PosInf else NegInf)
           | NaN \<Rightarrow> NaN)"

definition isNaN :: "number \<Rightarrow> bool" where
  "isNaN a = (a = NaN)"

text \<open>
  The truth value of a number in a condition (\<open>x ? a : b\<close>, \<open>x && y\<close>): zero and NaN are
  falsy.
\<close>

definition truthy :: "number \<Rightarrow> bool" where
  "truthy a = (a \<noteq> Num 0 \<and> a \<noteq> NaN)"

section \<open>The data model (types.ts)\<close>

datatype SoilType = Cohesionless_Sand | Cohesive_Clay | c_phi_Soil | Rock | Other

datatype FoundationShape = Strip_Continuous | Square | Rectangular | Circular

datatype Status = SAFE | SETTLEMENT_GOVERNING | HIGH_ECCENTRICITY

text \<open>
  The inputs are the finite numbers that the forms of the application hand to the
  engine (each field is read with \<open>parseFloat(..) || 0\<close>, which replaces NaN), so the
  input records hold reals. The optional fields \<open>spt_n\<close> and \<open>Es\<close> and the nullable
  water-table depth are options: \<open>None\<close> is \<open>undefined\<close> (falsy in a condition) or
  \<open>null\<close>. The field \<open>type\<close> of the soil is written \<open>soil_type\<close>.
\<close>

record SoilProperties =
  soil_type :: SoilType
  c :: real
  phi :: real
  gamma :: real
  gamma_sub :: real
  spt_n :: "real option"
  Es :: "real option"

record FoundationProperties =
  shape :: FoundationShape
  B :: real
  L :: real
  Df :: real

record LoadingConditions =
  V :: real
  H :: real
  Mx :: real
  My :: real

record CalculationResults =
  SoilType :: SoilType
  Cohesion :: number
  FrictionAngle :: number
  UnitWeight :: number
  FoundationShape :: FoundationShape
  FoundationWidth :: number
  FoundationLength :: number
  FoundationDepth :: number
  FOS :: number
  ex :: number
  ey :: number
  B_prime :: number
  L_prime :: number
  eccentricity_check :: bool
  Nc :: number
  Nq :: number
  Ngamma :: number
  sc :: number
  sq :: number
  sgamma :: number
  dc :: number
  dq :: number
  dgamma :: number
  ic :: number
  iq :: number
  igamma :: number
  W_prime :: number
  term1 :: number
  term2 :: number
  term3 :: number
  qu :: number
  qnu :: number
  qns :: number
  qs :: number
  qa_spt :: number
  recommended_sbc :: number
  settlement :: number
  status :: Status

section \<open>The engine\<close>

definition deg2rad :: "number \<Rightarrow> number" where
  "deg2rad deg = (deg * Math_PI) / Num 180"

definition rad2deg :: "number \<Rightarrow> number" where
  "rad2deg rad = (rad * Num 180) / Math_PI"

fun allowablePressureSPT :: "SoilType \<Rightarrow> number \<Rightarrow> number" where
  "allowablePressureSPT Cohesionless_Sand N =
     (if N < Num 10 then Num 50 + Num 5 * (N - Num 5)
      else if N < Num 30 then Num 100 + Num 10 * (N - Num 10)
      else Num 300)"
| "allowablePressureSPT Cohesive_Clay N =
     (if N < Num 4 then Num 50
      else if N < Num 8 then Num 80
      else if N < Num 15 then Num 100
      else Num 200)"
| "allowablePressureSPT c_phi_Soil N = Num 100 + Num 10 * N"
| "allowablePressureSPT Rock N = Num 500"
| "allowablePressureSPT Other N = Num 150"

text \<open>
  Step 2 of \<open>calculateBearingCapacity\<close>: the two variables \<open>q_surcharge\<close> and
  \<open>W_prime\<close> that the water-table block assigns, returned as a pair. The second test
  compares the depth with the sum \<open>Df + B\<close> of the engine's numbers, which a double
  computation rounds; the statements about this step therefore name that sum, and
  never replace it by the exact sum of the two inputs.
\<close>

definition water_table_corrections ::
  "SoilProperties \<Rightarrow> FoundationProperties \<Rightarrow> real option \<Rightarrow> number \<times> number" where
  "water_table_corrections soil foundation water_table_depth =
     (let B = Num (B foundation); Df = Num (Df foundation);
          q_surcharge = Num (gamma soil) * Df;
          W_prime = Num 1.0
      in case water_table_depth of
           None \<Rightarrow> (q_surcharge, W_prime)
         | Some Dw \<Rightarrow>
             (let water_table_depth = Num Dw;
                  q_surcharge =
                    (if water_table_depth \<le> Df
                     then Num (gamma soil) * water_table_depth
                          + Num (gamma_sub soil) * (Df - water_table_depth)
                     else q_surcharge);
                  W_prime =
                    (if water_table_depth \<le> Df then Num 0.5
                     else if water_table_depth \<ge> (Df + B) then Num 1.0
                     else Num 0.5 * (Num 1 + (water_table_depth - Df) / B))
              in (q_surcharge, W_prime)))"

definition q_surcharge ::
  "SoilProperties \<Rightarrow> FoundationProperties \<Rightarrow> real option \<Rightarrow> number" where
  "q_surcharge soil foundation water_table_depth =
     fst (water_table_corrections soil foundation water_table_depth)"

text \<open>Step 6: the load inclination \<open>alpha\<close> and the divisor \<open>phi_temp\<close>.\<close>

definition alpha :: "LoadingConditions \<Rightarrow> number" where
  "alpha load =
     (if Num (V load) > Num 0 then rad2deg (Math_atan (Num (H load) / Num (V load)))
      else Num 0)"

definition phi_temp :: "SoilProperties \<Rightarrow> number" where
  "phi_temp soil = (if Num (phi soil) = Num 0 then Num 0.001 else Num (phi soil))"

text \<open>
  The fifth parameter is written \<open>fos\<close>, as the caller names it, since \<open>FOS\<close> is also a
  field of the result. The two settlement formulas of step 11 that do not use the
  elastic modulus are bound to \<open>empirical\<close>, the else-branch of the source.
\<close>

definition calculateBearingCapacity ::
  "SoilProperties \<Rightarrow> FoundationProperties \<Rightarrow> LoadingConditions \<Rightarrow> real option \<Rightarrow> real
     \<Rightarrow> CalculationResults" where
  "calculateBearingCapacity soil foundation load water_table_depth fos =
     (let phi_rad = deg2rad (Num (phi soil));
          V = Num (V load); Mx = Num (Mx load); My = Num (My load); H = Num (H load);
          B = Num (B foundation); L = Num (L foundation); Df = Num (Df foundation);
          shape = shape foundation;
          FOS = Num fos;

          ex = (if V \<noteq> Num 0 then Math_abs (My / V) else Num 0);
          ey = (if V \<noteq> Num 0 then Math_abs (Mx / V) else Num 0);
          B_prime = Math_max (B - Num 2 * ex) (Num 0.1);
          L_prime = Math_max (L - Num 2 * ey) (Num 0.1);
          eccentricity_check = ((ex / B > Num 1 / Num 6) \<or> (ey / L > Num 1 / Num 6));

          q_surcharge = q_surcharge soil foundation water_table_depth;
          W_prime = snd (water_table_corrections soil foundation water_table_depth);
          gamma_eff = Num (gamma soil) * W_prime;

          Nq = (if Num (phi soil) > Num 0
                then Math_exp (Math_PI * Math_tan phi_rad)
                     * Math_pow (Math_tan (Math_PI / Num 4 + phi_rad / Num 2)) 2
                else Num 1);
          Nc = (if Num (phi soil) > Num 0 then (Nq - Num 1) / Math_tan phi_rad
                else Num 5.14);
          Ngamma = (if Num (phi soil) > Num 0 then Num 2 * (Nq + Num 1) * Math_tan phi_rad
                    else Num 0);

          sc = (case shape of
                  Strip_Continuous \<Rightarrow> Num 1.0
                | Square \<Rightarrow> (if Num (phi soil) > Num 0
                             then Num 1 + Num 0.2 * (B_prime / L_prime)
                             else Num 1.3)
                | Rectangular \<Rightarrow> Num 1 + Num 0.2 * (B_prime / L_prime)
                | Circular \<Rightarrow> Num 1.3);
          sq = (case shape of
                  Strip_Continuous \<Rightarrow> Num 1.0
                | Square \<Rightarrow> (if Num (phi soil) > Num 0
                             then Num 1 + Num 0.2 * (B_prime / L_prime)
                                  * Math_tan (deg2rad (Num 45 + Num (phi soil) / Num 2))
                             else Num 1.0)
                | Rectangular \<Rightarrow> Num 1 + Num 0.2 * (B_prime / L_prime)
                                  * Math_tan (deg2rad (Num 45 + Num (phi soil) / Num 2))
                | Circular \<Rightarrow> Num 1.2);
          sgamma = (case shape of
                  Strip_Continuous \<Rightarrow> Num 1.0
                | Square \<Rightarrow> Num 0.8
                | Rectangular \<Rightarrow> Num 1 - Num 0.4 * (B_prime / L_prime)
                | Circular \<Rightarrow> Num 0.6);

          D_B_ratio = Df / B;
          dgamma = Num 1.0;
          factor = (if D_B_ratio \<le> Num 1 then D_B_ratio else Math_atan D_B_ratio);
          dc = Num 1 + Num 0.2 * factor * Math_tan (deg2rad (Num 45 + Num (phi soil) / Num 2));
          dq = Num 1 + Num 0.1 * factor * Math_tan (deg2rad (Num 45 + Num (phi soil) / Num 2));

          alpha = alpha load;
          phi_temp = phi_temp soil;
          ic = Math_pow (Num 1 - (alpha / Num 90)) 2;
          iq = ic;
          igamma = Math_pow (Num 1 - (alpha / phi_temp)) 2;

          term1 = Num (c soil) * Nc * sc * dc * ic;
          term2 = q_surcharge * Nq * sq * dq * iq;
          term3 = Num 0.5 * gamma_eff * B_prime * Ngamma * sgamma * dgamma * igamma;

          qu = term1 + term2 + term3;
          qnu = qu - q_surcharge;
          qns = qnu / FOS;
          qs = qns + q_surcharge;

          qa_spt = (case spt_n soil of
                      Some N \<Rightarrow> (if truthy (Num N)
                                 then allowablePressureSPT (soil_type soil) (Num N)
                                 else NaN)
                    | None \<Rightarrow> NaN);

          recommended_sbc = (if \<not> isNaN qa_spt then Math_min qs qa_spt else qs);

          empirical = (if soil_type soil = Cohesive_Clay then (qs / Num 50) * Num 25
                       else (qs / Num 100) * Num 15);
          settlement =
            (case Es soil of
               Some E \<Rightarrow>
                 (if truthy (Num E) \<and> Num E > Num 0
                  then (let mu = Num 0.3; I = Num 0.82
                        in (qs * B * (Num 1 - Math_pow mu 2) * I) / Num E * Num 1000)
                  else empirical)
             | None \<Rightarrow> empirical);

          status = (if settlement > Num 25 then SETTLEMENT_GOVERNING
                    else if eccentricity_check then HIGH_ECCENTRICITY
                    else SAFE)
      in \<lparr> SoilType = soil_type soil,
           Cohesion = Num (c soil),
           FrictionAngle = Num (phi soil),
           UnitWeight = Num (gamma soil),
           FoundationShape = shape,
           FoundationWidth = B,
           FoundationLength = L,
           FoundationDepth = Df,
           FOS = FOS,
           ex = ex, ey = ey, B_prime = B_prime, L_prime = L_prime,
           eccentricity_check = eccentricity_check,
           Nc = Nc, Nq = Nq, Ngamma = Ngamma,
           sc = sc, sq = sq, sgamma = sgamma,
           dc = dc, dq = dq, dgamma = dgamma,
           ic = ic, iq = iq, igamma = igamma,
           W_prime = W_prime,
           term1 = term1, term2 = term2, term3 = term3,
           qu = qu, qnu = qnu, qns = qns, qs = qs,
           qa_spt = qa_spt, recommended_sbc = recommended_sbc,
           settlement = settlement,
           status = status \<rparr>)"

section \<open>The outcome of a call\<close>

text \<open>
  The body of \<open>calculateBearingCapacity\<close> has no \<open>throw\<close>, and the functions it calls
  (\<open>Math.*\<close>, \<open>isNaN\<close>, \<open>allowablePressureSPT\<close>) do not throw on numbers. What the
  caller of the entry point observes is therefore always the returned record; the sum
  type states this outcome, with the left side for the rejection that the
  specification names.
\<close>

datatype error = InvalidConfiguration

definition evaluate ::
  "SoilProperties \<Rightarrow> FoundationProperties \<Rightarrow> LoadingConditions \<Rightarrow> real option \<Rightarrow> real
     \<Rightarrow> error + CalculationResults" where
  "evaluate soil foundation load water_table_depth fos =
     Inr (calculateBearingCapacity soil foundation load water_table_depth fos)"

section \<open>Example inputs\<close>

definition stiff_clay :: SoilProperties where
  "stiff_clay = \<lparr> soil_type = Cohesive_Clay, c = 100, phi = 0, gamma = 18, gamma_sub = 10,
                  spt_n = None, Es = None \<rparr>"

definition soft_clay :: SoilProperties where
  "soft_clay = \<lparr> soil_type = Cohesive_Clay, c = 5, phi = 0, gamma = 18, gamma_sub = 10,
                 spt_n = None, Es = None \<rparr>"

definition zero_count_clay :: SoilProperties where
  "zero_count_clay = \<lparr> soil_type = Cohesive_Clay, c = 100, phi = 0, gamma = 18,
                       gamma_sub = 10, spt_n = Some 0, Es = None \<rparr>"

definition sand :: SoilProperties where
  "sand = \<lparr> soil_type = Cohesionless_Sand, c = 0, phi = 30, gamma = 18, gamma_sub = 10,
            spt_n = Some 15, Es = Some 20000 \<rparr>"

definition strip_footing :: FoundationProperties where
  "strip_footing = \<lparr> shape = Strip_Continuous, B = 2, L = 2, Df = 1.5 \<rparr>"

definition square_footing :: FoundationProperties where
  "square_footing = \<lparr> shape = Square, B = 2, L = 2, Df = 1.5 \<rparr>"

definition narrow_footing :: FoundationProperties where
  "narrow_footing = \<lparr> shape = Strip_Continuous, B = 0.05, L = 2, Df = 1.5 \<rparr>"

definition zero_width_footing :: FoundationProperties where
  "zero_width_footing = \<lparr> shape = Strip_Continuous, B = 0, L = 2, Df = 1.5 \<rparr>"

definition central_load :: LoadingConditions where
  "central_load = \<lparr> V = 500, H = 0, Mx = 0, My = 0 \<rparr>"

definition eccentric_load :: LoadingConditions where
  "eccentric_load = \<lparr> V = 500, H = 0, Mx = 0, My = 600 \<rparr>"

definition moment_only :: LoadingConditions where
  "moment_only = \<lparr> V = 0, H = 0, Mx = 0, My = 600 \<rparr>"

definition uplift_load :: LoadingConditions where
  "uplift_load = \<lparr> V = - 500, H = 500, Mx = 0, My = 0 \<rparr>"

definition inclined_load :: LoadingConditions where
  "inclined_load = \<lparr> V = 500, H = 500, Mx = 0, My = 0 \<rparr>"

section \<open>Auxiliary facts\<close>

lemma Math_pow_Num: "Math_pow (Num x) n = Num (x ^ n)"
  by (simp add: Math_pow_def)

lemma divide_by_zero_not_finite: "a / Num 0 \<noteq> Num x"
  by (cases a) simp_all

lemma allowablePressureSPT_not_NaN: "allowablePressureSPT t (Num n) \<noteq> NaN"
  by (cases t) simp_all

lemma W_prime_eq:
  "W_prime (calculateBearingCapacity soil foundation load w fos) =
     snd (water_table_corrections soil foundation w)"
  by (simp add: calculateBearingCapacity_def Let_def)

lemma water_table_None:
  "water_table_corrections soil foundation None =
     (Num (gamma soil * Df foundation), Num 1)"
  by (simp add: water_table_corrections_def Let_def)

lemma water_table_Some:
  "water_table_corrections soil foundation (Some Dw) =
     (if Dw \<le> Df foundation
      then (Num (gamma soil * Dw + gamma_sub soil * (Df foundation - Dw)), Num 0.5)
      else if Df foundation + B foundation \<le> Dw
      then (Num (gamma soil * Df foundation), Num 1)
      else (Num (gamma soil * Df foundation),
            Num (0.5 * (1 + (Dw - Df foundation) / B foundation))))"
  by (simp add: water_table_corrections_def Let_def)

lemma alpha_eq:
  "alpha load = Num (if 0 < V load then arctan (H load / V load) * 180 / pi else 0)"
  by (simp add: alpha_def rad2deg_def Math_PI_def)

lemma phi_temp_eq: "phi_temp soil = Num (if phi soil = 0 then 0.001 else phi soil)"
  by (simp add: phi_temp_def)

text \<open>
  The inclination angle lies strictly between -90 and 90 degrees, which bounds the
  factor \<open>(1 - alpha / 0.001)\<^sup>2\<close> of a purely cohesive soil.
\<close>

lemma alpha_range: "\<exists>a. alpha load = Num a \<and> \<bar>a\<bar> < 90"
proof (cases "0 < V load")
  case True
  let ?y = "H load / V load"
  have lo: "- (pi / 2) < arctan ?y" and hi: "arctan ?y < pi / 2"
    by (rule arctan_lbound, rule arctan_ubound)
  have "\<bar>arctan ?y\<bar> < pi / 2"
    using lo hi by linarith
  then have "\<bar>arctan ?y\<bar> * 180 / pi < 90"
    by (simp add: field_simps)
  then have "\<bar>arctan ?y * 180 / pi\<bar> < 90"
    by (simp add: abs_mult)
  with True show ?thesis
    by (simp add: alpha_eq)
next
  case False
  then show ?thesis
    by (simp add: alpha_eq)
qed

lemma igamma_bound:
  assumes "\<bar>a\<bar> < (90 :: real)"
  shows "(1 - a / 0.001)\<^sup>2 \<le> 10 ^ 10"
proof -
  have "\<bar>1 - a / 0.001\<bar> \<le> 1 + \<bar>a\<bar> * 1000"
    by (simp add: abs_if)
  also have "\<dots> \<le> 90001"
    using assms by simp
  finally have "\<bar>1 - a / 0.001\<bar> \<le> 90001" .
  then have "(1 - a / 0.001)\<^sup>2 \<le> 90001\<^sup>2"
    using power2_le_iff_abs_le [of 90001 "1 - a / 0.001"] by simp
  also have "(90001 :: real)\<^sup>2 \<le> 10 ^ 10"
    by simp
  finally show ?thesis .
qed

lemmas engine_defs =
  calculateBearingCapacity_def Let_def q_surcharge_def water_table_corrections_def
  alpha_def phi_temp_def rad2deg_def deg2rad_def Math_PI_def truthy_def isNaN_def
  Math_max_def Math_min_def Math_pow_Num tan_45

lemmas example_defs =
  stiff_clay_def soft_clay_def zero_count_clay_def sand_def strip_footing_def
  square_footing_def narrow_footing_def zero_width_footing_def central_load_def
  eccentric_load_def moment_only_def uplift_load_def inclined_load_def

section \<open>The claims\<close>

subsection \<open>C1: the safety factor is not validated\<close>

text \<open>
  C1, as stated: a call with a safety factor \<open>FOS \<le> 0\<close> is rejected with an
  invalid-configuration condition instead of a numeric result. The engine has no such
  check: with \<open>FOS = -1\<close> on a clay under a strip footing the call returns a record, whose
  net safe pressure is the negated net ultimate pressure, \<open>-593.125\<close>.
\<close>

theorem C1_counterexample:
  "(- 1 :: real) \<le> 0
   \<and> evaluate stiff_clay strip_footing central_load None (- 1) \<noteq> Inl InvalidConfiguration
   \<and> map_sum id qns (evaluate stiff_clay strip_footing central_load None (- 1))
       = Inr (Num (- 593.125))"
  by (simp add: evaluate_def engine_defs example_defs)

text \<open>
  C1, amended: for every input and every safety factor, positive, zero or negative, the
  call returns the complete record and never reports an invalid configuration. The
  record echoes the safety factor, and its net safe pressure is the quotient
  \<open>qnu / FOS\<close>; with \<open>FOS = 0\<close> that quotient is an infinity or NaN, never a finite
  number.
\<close>

theorem C1_every_safety_factor_returns:
  "evaluate soil foundation load w fos
     = Inr (calculateBearingCapacity soil foundation load w fos)
   \<and> FOS (calculateBearingCapacity soil foundation load w fos) = Num fos
   \<and> qns (calculateBearingCapacity soil foundation load w fos)
       = qnu (calculateBearingCapacity soil foundation load w fos) / Num fos
   \<and> (\<forall>x. qns (calculateBearingCapacity soil foundation load w 0) \<noteq> Num x)"
  by (simp add: evaluate_def calculateBearingCapacity_def Let_def divide_by_zero_not_finite)

subsection \<open>C2: zero vertical load\<close>

text \<open>
  C2, as stated: with \<open>V = 0\<close> the effective width equals the raw width. The effective
  dimensions are floored at \<open>0.1\<close>, so a footing \<open>0.05\<close> wide gets the effective width
  \<open>0.1\<close>.
\<close>

theorem C2_counterexample:
  "V moment_only = 0
   \<and> B_prime (calculateBearingCapacity stiff_clay narrow_footing moment_only None 3) = Num 0.1
   \<and> B_prime (calculateBearingCapacity stiff_clay narrow_footing moment_only None 3)
       \<noteq> Num (B narrow_footing)"
  by (simp add: engine_defs example_defs)

text \<open>
  C2, amended: with \<open>V = 0\<close> both eccentricities are exactly 0 (no division takes
  place), and the effective dimensions are the raw dimensions floored at \<open>0.1\<close>:
  \<open>B_prime = max(B, 0.1)\<close> and \<open>L_prime = max(L, 0.1)\<close>. They equal \<open>B\<close> and \<open>L\<close> exactly
  when these are at least \<open>0.1\<close>.
\<close>

theorem C2_zero_vertical_load:
  assumes "V load = 0"
  shows "ex (calculateBearingCapacity soil foundation load w fos) = Num 0
       \<and> ey (calculateBearingCapacity soil foundation load w fos) = Num 0
       \<and> B_prime (calculateBearingCapacity soil foundation load w fos)
           = Num (max (B foundation) 0.1)
       \<and> L_prime (calculateBearingCapacity soil foundation load w fos)
           = Num (max (L foundation) 0.1)"
  using assms by (simp add: calculateBearingCapacity_def Let_def Math_max_def max_def)

theorem C2_witness:
  "V moment_only = 0
   \<and> ex (calculateBearingCapacity stiff_clay strip_footing moment_only None 3) = Num 0
   \<and> ey (calculateBearingCapacity stiff_clay strip_footing moment_only None 3) = Num 0
   \<and> B_prime (calculateBearingCapacity stiff_clay strip_footing moment_only None 3) = Num 2
   \<and> L_prime (calculateBearingCapacity stiff_clay strip_footing moment_only None 3) = Num 2"
proof -
  have h: "V moment_only = 0"
    by (simp add: moment_only_def)
  from C2_zero_vertical_load [OF h, of stiff_clay strip_footing None 3] h
  show ?thesis
    by (simp add: strip_footing_def)
qed

subsection \<open>C3: purely cohesive soil\<close>

text \<open>
  C3: with a friction angle \<open>phi = 0\<close> the bearing-capacity factors are the constants
  \<open>Nc = 5.14\<close>, \<open>Nq = 1\<close> and \<open>Ngamma = 0\<close>, whatever the other inputs are.
\<close>

theorem C3_cohesive_factors:
  assumes "phi soil = 0"
  shows "Nc (calculateBearingCapacity soil foundation load w fos) = Num 5.14
       \<and> Nq (calculateBearingCapacity soil foundation load w fos) = Num 1
       \<and> Ngamma (calculateBearingCapacity soil foundation load w fos) = Num 0"
  using assms by (simp add: calculateBearingCapacity_def Let_def)

theorem C3_witness:
  "phi stiff_clay = 0
   \<and> Nc (calculateBearingCapacity stiff_clay square_footing eccentric_load (Some 1) 3)
       = Num 5.14
   \<and> Nq (calculateBearingCapacity stiff_clay square_footing eccentric_load (Some 1) 3)
       = Num 1
   \<and> Ngamma (calculateBearingCapacity stiff_clay square_footing eccentric_load (Some 1) 3)
       = Num 0"
proof -
  have h: "phi stiff_clay = 0"
    by (simp add: stiff_clay_def)
  from C3_cohesive_factors [OF h, of square_footing eccentric_load "Some 1" 3] h
  show ?thesis
    by simp
qed

subsection \<open>C4: the water-table correction\<close>




subsection \<open>C5: the capacity identities\<close>

text \<open>
  C5: for every input, the returned record satisfies \<open>qu = term1 + term2 + term3\<close>,
  \<open>qnu = qu - q_surcharge\<close> and \<open>qs = qns + q_surcharge\<close>, where \<open>q_surcharge\<close> is the
  surcharge of the water-table step. The operations are those of the engine's numbers,
  so the identities also hold where a term is infinite or NaN.
\<close>

theorem C5_capacity_identities:
  "qu (calculateBearingCapacity soil foundation load w fos)
     = term1 (calculateBearingCapacity soil foundation load w fos)
       + term2 (calculateBearingCapacity soil foundation load w fos)
       + term3 (calculateBearingCapacity soil foundation load w fos)
   \<and> qnu (calculateBearingCapacity soil foundation load w fos)
     = qu (calculateBearingCapacity soil foundation load w fos) - q_surcharge soil foundation w
   \<and> qs (calculateBearingCapacity soil foundation load w fos)
     = qns (calculateBearingCapacity soil foundation load w fos) + q_surcharge soil foundation w"
  by (simp add: calculateBearingCapacity_def Let_def)

subsection \<open>C6: the status\<close>

text \<open>
  C6: for every input, the status is \<open>SETTLEMENT GOVERNING\<close> whenever the settlement of
  the record exceeds 25, whatever the eccentricity flag is; otherwise it is
  \<open>HIGH ECCENTRICITY\<close> whenever the flag is set; otherwise it is \<open>SAFE\<close>.
\<close>

theorem C6_status_priority:
  "(settlement (calculateBearingCapacity soil foundation load w fos) > Num 25 \<longrightarrow>
      status (calculateBearingCapacity soil foundation load w fos) = SETTLEMENT_GOVERNING)
   \<and> (\<not> settlement (calculateBearingCapacity soil foundation load w fos) > Num 25
       \<and> eccentricity_check (calculateBearingCapacity soil foundation load w fos) \<longrightarrow>
      status (calculateBearingCapacity soil foundation load w fos) = HIGH_ECCENTRICITY)
   \<and> (\<not> settlement (calculateBearingCapacity soil foundation load w fos) > Num 25
       \<and> \<not> eccentricity_check (calculateBearingCapacity soil foundation load w fos) \<longrightarrow>
      status (calculateBearingCapacity soil foundation load w fos) = SAFE)"
  by (simp add: calculateBearingCapacity_def Let_def)

theorem C6_witness:
  "settlement (calculateBearingCapacity stiff_clay strip_footing eccentric_load None 3) > Num 25
   \<and> eccentricity_check (calculateBearingCapacity stiff_clay strip_footing eccentric_load None 3)
   \<and> status (calculateBearingCapacity stiff_clay strip_footing eccentric_load None 3)
       = SETTLEMENT_GOVERNING
   \<and> \<not> settlement (calculateBearingCapacity soft_clay strip_footing eccentric_load None 3)
         > Num 25
   \<and> eccentricity_check (calculateBearingCapacity soft_clay strip_footing eccentric_load None 3)
   \<and> status (calculateBearingCapacity soft_clay strip_footing eccentric_load None 3)
       = HIGH_ECCENTRICITY
   \<and> \<not> settlement (calculateBearingCapacity soft_clay strip_footing central_load None 3)
         > Num 25
   \<and> \<not> eccentricity_check (calculateBearingCapacity soft_clay strip_footing central_load None 3)
   \<and> status (calculateBearingCapacity soft_clay strip_footing central_load None 3) = SAFE"
proof -
  have s1: "settlement (calculateBearingCapacity stiff_clay strip_footing eccentric_load None 3)
              = Num (5393 / 48)"
    by (simp add: engine_defs example_defs)
  have e1: "eccentricity_check
              (calculateBearingCapacity stiff_clay strip_footing eccentric_load None 3)"
    by (simp add: engine_defs example_defs)
  have s2: "settlement (calculateBearingCapacity soft_clay strip_footing eccentric_load None 3)
              = Num (5629 / 300)"
    by (simp add: engine_defs example_defs)
  have e2: "eccentricity_check
              (calculateBearingCapacity soft_clay strip_footing eccentric_load None 3)"
    by (simp add: engine_defs example_defs)
  have s3: "settlement (calculateBearingCapacity soft_clay strip_footing central_load None 3)
              = Num (5629 / 300)"
    by (simp add: engine_defs example_defs)
  have e3: "\<not> eccentricity_check
              (calculateBearingCapacity soft_clay strip_footing central_load None 3)"
    by (simp add: engine_defs example_defs)
  from C6_status_priority [of stiff_clay strip_footing eccentric_load None 3]
       C6_status_priority [of soft_clay strip_footing eccentric_load None 3]
       C6_status_priority [of soft_clay strip_footing central_load None 3]
       e1 e2 e3
  show ?thesis
    by (simp add: s1 s2 s3)
qed

subsection \<open>C7: the penetration count\<close>

text \<open>
  C7, as stated: a supplied count of exactly zero behaves like any supplied count, so
  the recommended pressure is the minimum of \<open>qs\<close> and the table value at 0. The engine
  tests the count for truth, which zero fails: for a clay with the count 0 the table
  value is 50, yet the recommended pressure is \<open>qs\<close> itself, about 224.7.
\<close>

theorem C7_counterexample:
  "spt_n zero_count_clay = Some 0
   \<and> recommended_sbc (calculateBearingCapacity zero_count_clay strip_footing central_load None 3)
       = Num (5393 / 24)
   \<and> Math_min (qs (calculateBearingCapacity zero_count_clay strip_footing central_load None 3))
        (allowablePressureSPT (soil_type zero_count_clay) (Num 0)) = Num 50"
  by (simp add: engine_defs example_defs)

text \<open>
  C7, amended: for every input in which a non-zero penetration count is supplied, the
  empirical pressure \<open>qa_spt\<close> is the value of the lookup table at that count and the
  recommended pressure is \<open>min(qs, qa_spt)\<close>; when the count is absent or is exactly
  zero (zero counts as absent), \<open>qa_spt\<close> is NaN and the recommended pressure is \<open>qs\<close>
  alone.
\<close>

theorem C7_recommended_pressure:
  "(spt_n soil = Some n \<and> n \<noteq> 0 \<longrightarrow>
       qa_spt (calculateBearingCapacity soil foundation load w fos)
         = allowablePressureSPT (soil_type soil) (Num n)
     \<and> recommended_sbc (calculateBearingCapacity soil foundation load w fos)
         = Math_min (qs (calculateBearingCapacity soil foundation load w fos))
                    (allowablePressureSPT (soil_type soil) (Num n)))
   \<and> (spt_n soil = None \<or> spt_n soil = Some 0 \<longrightarrow>
       qa_spt (calculateBearingCapacity soil foundation load w fos) = NaN
     \<and> recommended_sbc (calculateBearingCapacity soil foundation load w fos)
         = qs (calculateBearingCapacity soil foundation load w fos))"
  by (auto simp add: calculateBearingCapacity_def Let_def truthy_def isNaN_def
        allowablePressureSPT_not_NaN)

theorem C7_witness:
  "spt_n sand = Some 15 \<and> (15 :: real) \<noteq> 0
   \<and> qa_spt (calculateBearingCapacity sand square_footing central_load (Some 5) 3) = Num 150
   \<and> recommended_sbc (calculateBearingCapacity sand square_footing central_load (Some 5) 3)
       = Math_min (qs (calculateBearingCapacity sand square_footing central_load (Some 5) 3))
                  (Num 150)
   \<and> spt_n stiff_clay = None
   \<and> qa_spt (calculateBearingCapacity stiff_clay strip_footing central_load None 3) = NaN
   \<and> recommended_sbc (calculateBearingCapacity stiff_clay strip_footing central_load None 3)
       = Num (5393 / 24)
   \<and> spt_n zero_count_clay = Some 0
   \<and> qa_spt (calculateBearingCapacity zero_count_clay strip_footing central_load None 3) = NaN"
proof -
  have q: "qs (calculateBearingCapacity stiff_clay strip_footing central_load None 3)
             = Num (5393 / 24)"
    by (simp add: engine_defs example_defs)
  have t: "allowablePressureSPT (soil_type sand) (Num 15) = Num 150"
    by (simp add: sand_def)
  have h1: "spt_n sand = Some 15" and h2: "spt_n stiff_clay = None"
    and h3: "spt_n zero_count_clay = Some 0"
    by (simp_all add: example_defs)
  from C7_recommended_pressure [of sand 15 square_footing central_load "Some 5" 3]
       C7_recommended_pressure [of stiff_clay 0 strip_footing central_load None 3]
       C7_recommended_pressure [of zero_count_clay 0 strip_footing central_load None 3]
       h1 h2 h3
  show ?thesis
    by (simp add: q t)
qed

subsection \<open>C8: the inclination factors\<close>

text \<open>
  C8, as stated: the load inclination is \<open>atan(H / V)\<close> in degrees for every \<open>V\<close> other
  than 0. The engine takes the arctangent only for \<open>V > 0\<close>: with \<open>V = -500\<close> and
  \<open>H = 500\<close> the angle \<open>atan(H / V)\<close> is -45 degrees, which would give
  \<open>(1 + 45/90)\<^sup>2 = 2.25\<close>, but the engine uses the angle 0 and returns \<open>ic = 1\<close>.
\<close>

theorem C8_counterexample:
  "ic (calculateBearingCapacity stiff_clay strip_footing uplift_load None 3) = Num 1
   \<and> Math_pow (Num 1 - rad2deg (Math_atan (Num (H uplift_load) / Num (V uplift_load)))
                        / Num 90) 2
       = Num 2.25"
  by (simp add: engine_defs example_defs arctan_minus arctan_one power2_eq_square)

text \<open>
  C8, amended: for every input, \<open>ic = iq = (1 - alpha/90)\<^sup>2\<close> and
  \<open>igamma = (1 - alpha/phi_temp)\<^sup>2\<close>, where \<open>alpha\<close> is \<open>atan(H / V)\<close> in degrees when
  \<open>V > 0\<close> and 0 when \<open>V \<le> 0\<close>, and \<open>phi_temp\<close> is \<open>phi\<close>, with 0.001 substituted when
  \<open>phi = 0\<close>. When \<open>phi = 0\<close>, the factor \<open>igamma = (1 - alpha/0.001)\<^sup>2\<close> is a finite
  number between 0 and \<open>10\<^sup>1\<^sup>0\<close>.
\<close>

theorem C8_inclination_factors:
  "ic (calculateBearingCapacity soil foundation load w fos)
      = Math_pow (Num 1 - alpha load / Num 90) 2
   \<and> iq (calculateBearingCapacity soil foundation load w fos)
      = ic (calculateBearingCapacity soil foundation load w fos)
   \<and> igamma (calculateBearingCapacity soil foundation load w fos)
      = Math_pow (Num 1 - alpha load / phi_temp soil) 2
   \<and> alpha load = Num (if 0 < V load then arctan (H load / V load) * 180 / pi else 0)
   \<and> phi_temp soil = Num (if phi soil = 0 then 0.001 else phi soil)
   \<and> (phi soil = 0 \<longrightarrow>
        igamma (calculateBearingCapacity soil foundation load w fos)
          = Math_pow (Num 1 - alpha load / Num 0.001) 2
      \<and> (\<exists>x. igamma (calculateBearingCapacity soil foundation load w fos) = Num x
              \<and> 0 \<le> x \<and> x \<le> 10 ^ 10))"
proof -
  obtain a where a: "alpha load = Num a" and r: "\<bar>a\<bar> < 90"
    using alpha_range by blast
  have ig: "igamma (calculateBearingCapacity soil foundation load w fos)
              = Math_pow (Num 1 - alpha load / phi_temp soil) 2"
    by (simp add: calculateBearingCapacity_def Let_def)
  have fin: "phi soil = 0 \<longrightarrow>
        igamma (calculateBearingCapacity soil foundation load w fos)
          = Math_pow (Num 1 - alpha load / Num 0.001) 2
      \<and> (\<exists>x. igamma (calculateBearingCapacity soil foundation load w fos) = Num x
              \<and> 0 \<le> x \<and> x \<le> 10 ^ 10)"
    using igamma_bound [OF r] by (simp add: ig a phi_temp_eq Math_pow_Num)
  have rest: "ic (calculateBearingCapacity soil foundation load w fos)
      = Math_pow (Num 1 - alpha load / Num 90) 2
   \<and> iq (calculateBearingCapacity soil foundation load w fos)
      = ic (calculateBearingCapacity soil foundation load w fos)"
    by (simp add: calculateBearingCapacity_def Let_def)
  from rest ig fin show ?thesis
    by (simp only: alpha_eq phi_temp_eq simp_thms)
qed

theorem C8_witness:
  "phi stiff_clay = 0
   \<and> alpha inclined_load = Num 45
   \<and> ic (calculateBearingCapacity stiff_clay strip_footing inclined_load None 3) = Num 0.25
   \<and> igamma (calculateBearingCapacity stiff_clay strip_footing inclined_load None 3)
       = Num 2024910001"
proof -
  have h: "phi stiff_clay = 0"
    by (simp add: stiff_clay_def)
  have a: "alpha inclined_load = Num 45"
    by (simp add: alpha_eq inclined_load_def arctan_one)
  from C8_inclination_factors [of stiff_clay strip_footing inclined_load None 3] h a
  show ?thesis
    by (simp add: Math_pow_Num power2_eq_square)
qed

subsection \<open>C10: the range of the water-table factor\<close>

text \<open>
  C10: for every input, with or without a water-table depth, the water-table factor of
  the record lies between 0.5 and 1.
\<close>

theorem C10_W_prime_bounds:
  "Num 0.5 \<le> W_prime (calculateBearingCapacity soil foundation load w fos)
   \<and> W_prime (calculateBearingCapacity soil foundation load w fos) \<le> Num 1"
proof (cases w)
  case None
  then show ?thesis
    by (simp add: W_prime_eq water_table_None)
next
  case (Some Dw)
  show ?thesis
  proof (cases "Dw \<le> Df foundation \<or> Df foundation + B foundation \<le> Dw")
    case True
    with Some show ?thesis
      by (auto simp add: W_prime_eq water_table_Some)
  next
    case False
    then have above: "Df foundation < Dw" and within: "Dw < Df foundation + B foundation"
      by auto
    then have width: "0 < B foundation"
      by linarith
    have "0 \<le> (Dw - Df foundation) / B foundation"
      using above width by simp
    moreover have "(Dw - Df foundation) / B foundation \<le> 1"
      using within width by (simp add: field_simps)
    ultimately show ?thesis
      using Some False by (simp add: W_prime_eq water_table_Some)
  qed
qed

end
